theory Spec2Isabelle
  imports Complex_Main
begin

section \<open>JavaScript numbers and strings\<close>

text \<open>
  A JavaScript \<^verbatim>\<open>number\<close> is a double. The hook only compares numbers and picks one of
  them (\<^verbatim>\<open>Math.min\<close>, \<^verbatim>\<open>Math.max\<close>, \<^verbatim>\<open>||\<close>, \<^verbatim>\<open>>=\<close>), so the finite values are
  modelled as reals and the three special values are kept as constructors.
\<close>

datatype number = NaN | NegInf | Fin real | PosInf

text \<open>\<^verbatim>\<open>x || d\<close> on numbers: \<^verbatim>\<open>NaN\<close> and \<^verbatim>\<open>0\<close> are falsy, every other number is truthy.\<close>

fun or_default :: "number \<Rightarrow> number \<Rightarrow> number" where
  "or_default NaN d = d"
| "or_default (Fin x) d = (if x = 0 then d else Fin x)"
| "or_default NegInf d = NegInf"
| "or_default PosInf d = PosInf"

fun math_min :: "number \<Rightarrow> number \<Rightarrow> number" where
  "math_min NaN b = NaN"
| "math_min a NaN = NaN"
| "math_min NegInf b = NegInf"
| "math_min a NegInf = NegInf"
| "math_min PosInf b = b"
| "math_min a PosInf = a"
| "math_min (Fin x) (Fin y) = Fin (min x y)"

fun math_max :: "number \<Rightarrow> number \<Rightarrow> number" where
  "math_max NaN b = NaN"
| "math_max a NaN = NaN"
| "math_max PosInf b = PosInf"
| "math_max a PosInf = PosInf"
| "math_max NegInf b = b"
| "math_max a NegInf = a"
| "math_max (Fin x) (Fin y) = Fin (max x y)"

text \<open>\<^verbatim>\<open>n >= x\<close> for a character count \<open>n\<close> and a number \<open>x\<close>; a comparison with \<^verbatim>\<open>NaN\<close> is false.\<close>

fun num_ge :: "nat \<Rightarrow> number \<Rightarrow> bool" where
  "num_ge n NaN = False"
| "num_ge n NegInf = True"
| "num_ge n PosInf = False"
| "num_ge n (Fin x) = (x \<le> real n)"

text \<open>
  Strings are lists of characters, one \<^typ>\<open>char\<close> per code unit. The white space of the
  regular expression \<^verbatim>\<open>\s\<close> that fits in a \<^typ>\<open>char\<close>: tab, line feed, vertical tab, form
  feed, carriage return, space and no-break space.
\<close>

definition is_space :: "char \<Rightarrow> bool" where
  "is_space c \<longleftrightarrow> c \<in> set [CHR 0x09, CHR 0x0A, CHR 0x0B, CHR 0x0C, CHR 0x0D, CHR '' '', CHR 0xA0]"

text \<open>
  \<^verbatim>\<open>text.split(/\s+/)\<close>: the pieces between maximal runs of white space. A leading or
  trailing run leaves an empty first or last piece, and the empty string gives one empty
  piece.
\<close>

fun split_ws :: "string \<Rightarrow> string list" where
  "split_ws [] = [[]]"
| "split_ws [c] = (if is_space c then [[], []] else [[c]])"
| "split_ws (c # d # cs) =
     (if is_space c then (if is_space d then split_ws (d # cs) else [] # split_ws (d # cs))
      else (case split_ws (d # cs) of [] \<Rightarrow> [[c]] | w # ws \<Rightarrow> (c # w) # ws))"

text \<open>\<^verbatim>\<open>s.split(sep)\<close> for a separator of one character: the pieces between its occurrences.\<close>

fun split_char :: "char \<Rightarrow> string \<Rightarrow> string list" where
  "split_char sep [] = [[]]"
| "split_char sep (c # cs) =
     (if c = sep then [] # split_char sep cs
      else (case split_char sep cs of [] \<Rightarrow> [[c]] | w # ws \<Rightarrow> (c # w) # ws))"

text \<open>\<^verbatim>\<open>text.split(' ')\<close>.\<close>

definition split_sp :: "string \<Rightarrow> string list" where
  "split_sp s = split_char (CHR '' '') s"

text \<open>\<^verbatim>\<open>s.slice(a, b)\<close> and \<^verbatim>\<open>s.slice(a)\<close> for indices that are not negative.\<close>

definition slice :: "string \<Rightarrow> nat \<Rightarrow> nat \<Rightarrow> string" where
  "slice s a b = take (b - a) (drop a s)"

definition slice_from :: "string \<Rightarrow> nat \<Rightarrow> string" where
  "slice_from s a = drop a s"

text \<open>\<^verbatim>\<open>words.join(' ')\<close>.\<close>

fun join_sp :: "string list \<Rightarrow> string" where
  "join_sp [] = []"
| "join_sp [w] = w"
| "join_sp (w # v # ws) = w @ CHR '' '' # join_sp (v # ws)"

section \<open>The speech hook (useSpeechSynthesis)\<close>

record SpeechOptions =
  rate :: number
  pitch :: number
  volume :: number
  voice :: "string option"

record utterance =
  u_text :: string
  u_rate :: number
  u_pitch :: number
  u_volume :: number
  u_voice :: "string option"

text \<open>
  The state of the hook: its \<^verbatim>\<open>useState\<close> cells (the list of voices apart) and its two
  refs. The updates one call makes are applied together. The calls into
  \<^verbatim>\<open>window.speechSynthesis\<close> are taken not to throw, so the \<^verbatim>\<open>catch\<close> branches are not
  entered.

  A function of the hook is a closure of the render that created it: the state values its
  guard reads are those of that render, while its setters act on the state of the moment.
  \<^verbatim>\<open>speak\<close> and \<^verbatim>\<open>stop\<close> read only \<^verbatim>\<open>isSupported\<close> and \<^verbatim>\<open>isInitialized\<close>, which no function
  of the hook changes after the mount effect, so they take the state alone. \<^verbatim>\<open>pause\<close> and
  \<^verbatim>\<open>resume\<close> read \<^verbatim>\<open>isPlaying\<close> and \<^verbatim>\<open>isPaused\<close>, which change between renders: they take
  the state of their render first, then the state they update.
\<close>

record hook_state =
  isSupported :: bool
  isPlaying :: bool
  isPaused :: bool
  currentUtterance :: "utterance option"
  currentWordIndex :: nat
  currentText :: string
  isInitialized :: bool
  utteranceRef :: "utterance option"
  isPlayingRef :: bool

definition new_utterance :: "string \<Rightarrow> SpeechOptions \<Rightarrow> utterance" where
  "new_utterance text options =
     \<lparr> u_text = text,
       u_rate = math_max (Fin 0.1) (math_min (Fin 10) (or_default (rate options) (Fin 1))),
       u_pitch = math_max (Fin 0) (math_min (Fin 2) (or_default (pitch options) (Fin 1))),
       u_volume = math_max (Fin 0) (math_min (Fin 1) (or_default (volume options) (Fin 1))),
       u_voice = voice options \<rparr>"

definition speak :: "string \<Rightarrow> SpeechOptions \<Rightarrow> hook_state \<Rightarrow> hook_state" where
  "speak text options s =
     (if \<not> isSupported s \<or> text = [] \<or> \<not> isInitialized s then s
      else s\<lparr> currentText := text, currentWordIndex := 0, isPlaying := False, isPaused := False,
              currentUtterance := Some (new_utterance text options),
              utteranceRef := Some (new_utterance text options) \<rparr>)"

definition pause :: "hook_state \<Rightarrow> hook_state \<Rightarrow> hook_state" where
  "pause render s =
     (if \<not> isSupported render then s
      else if isPlaying render \<and> \<not> isPaused render then s\<lparr> isPaused := True \<rparr> else s)"

definition resume :: "hook_state \<Rightarrow> hook_state \<Rightarrow> hook_state" where
  "resume render s =
     (if \<not> isSupported render then s
      else if isPaused render then s\<lparr> isPaused := False \<rparr> else s)"

definition stop :: "hook_state \<Rightarrow> hook_state" where
  "stop s =
     (if \<not> isSupported s then s
      else s\<lparr> isPlaying := False, isPaused := False, currentUtterance := None,
              currentWordIndex := 0, isPlayingRef := False, utteranceRef := None \<rparr>)"

subsection \<open>The handlers of an utterance\<close>

text \<open>
  The loop of \<^verbatim>\<open>onboundary\<close> over the words from position \<open>i\<close> with the running
  \<^verbatim>\<open>charCount\<close>: the index and the \<^verbatim>\<open>charCount\<close> at the \<^verbatim>\<open>break\<close>, or \<open>None\<close> when the
  loop ends without one.
\<close>

fun boundary_scan :: "string list \<Rightarrow> nat \<Rightarrow> nat \<Rightarrow> number \<Rightarrow> (nat \<times> nat) option" where
  "boundary_scan [] charCount i charIndex = None"
| "boundary_scan (w # ws) charCount i charIndex =
     (if num_ge (charCount + length w) charIndex then Some (i, charCount)
      else boundary_scan ws (charCount + length w + 1) (Suc i) charIndex)"

text \<open>The value of \<^verbatim>\<open>wordIndex\<close> after the loop; the variable starts at 0.\<close>

definition boundary_wordIndex :: "string \<Rightarrow> number \<Rightarrow> nat" where
  "boundary_wordIndex text charIndex =
     (case boundary_scan (split_ws text) 0 0 charIndex of None \<Rightarrow> 0 | Some (i, charCount) \<Rightarrow> i)"

text \<open>
  The events the platform sends to the handlers of one utterance. A boundary event
  carries its \<^verbatim>\<open>name\<close> and \<^verbatim>\<open>charIndex\<close>, an error event its \<^verbatim>\<open>error\<close> code.
\<close>

datatype speech_event =
  OnBoundary string number
| OnStart
| OnEnd
| OnPause
| OnResume
| OnError string

text \<open>
  The handlers that \<^verbatim>\<open>speak(text, options)\<close> installs on its utterance. They close over
  \<open>text\<close> and the state setters only.
\<close>

fun handle_event :: "string \<Rightarrow> speech_event \<Rightarrow> hook_state \<Rightarrow> hook_state" where
  "handle_event text (OnBoundary name charIndex) s =
     (if name = ''word'' then s\<lparr> currentWordIndex := boundary_wordIndex text charIndex \<rparr> else s)"
| "handle_event text OnStart s = s\<lparr> isPlaying := True, isPaused := False, isPlayingRef := True \<rparr>"
| "handle_event text OnEnd s =
     s\<lparr> isPlaying := False, isPaused := False, currentUtterance := None, currentWordIndex := 0,
        isPlayingRef := False, utteranceRef := None \<rparr>"
| "handle_event text OnPause s = s\<lparr> isPaused := True \<rparr>"
| "handle_event text OnResume s = s\<lparr> isPaused := False \<rparr>"
| "handle_event text (OnError err) s =
     (if err = ''interrupted'' then s
      else s\<lparr> isPlaying := False, isPaused := False, currentUtterance := None,
              currentWordIndex := 0, isPlayingRef := False, utteranceRef := None \<rparr>)"

text \<open>The effect that runs once when the hook is mounted; \<open>available\<close> says whether
  \<^verbatim>\<open>window.speechSynthesis\<close> exists.\<close>

definition mount :: "bool \<Rightarrow> hook_state \<Rightarrow> hook_state" where
  "mount available s = (if available then s\<lparr> isSupported := True, isInitialized := True \<rparr> else s)"

definition initial_hook :: hook_state where
  "initial_hook =
     \<lparr> isSupported = False, isPlaying = False, isPaused = False, currentUtterance = None,
       currentWordIndex = 0, currentText = [], isInitialized = False, utteranceRef = None,
       isPlayingRef = False \<rparr>"

section \<open>The document viewer (AdvancedDocumentViewer)\<close>

record highlight =
  hl_start :: nat
  hl_end :: nat

record viewer_state =
  currentReadingText :: string
  readingHighlight :: "highlight option"

definition initial_viewer :: viewer_state where
  "initial_viewer = \<lparr> currentReadingText = [], readingHighlight = None \<rparr>"

text \<open>The body of the effect that tracks the reading progress.\<close>

definition reading_progress_effect :: "hook_state \<Rightarrow> viewer_state \<Rightarrow> viewer_state" where
  "reading_progress_effect h v =
     (if isPlaying h \<and> currentText h \<noteq> [] \<and> 0 \<le> currentWordIndex h then
        (let words = split_sp (currentText h) in
         if currentWordIndex h < length words then
           (let currentWord = words ! currentWordIndex h;
                wordsBeforeCurrent = take (currentWordIndex h) words;
                charStart = length (join_sp wordsBeforeCurrent)
                            + (if currentWordIndex h > 0 then 1 else 0);
                charEnd = charStart + length currentWord
            in v\<lparr> currentReadingText := currentWord,
                  readingHighlight := Some \<lparr> hl_start = charStart, hl_end = charEnd \<rparr> \<rparr>)
         else v)
      else v\<lparr> currentReadingText := [], readingHighlight := None \<rparr>)"

text \<open>The effect runs after a render in which one of its dependencies has changed.\<close>

definition effect_deps :: "hook_state \<Rightarrow> bool \<times> nat \<times> string" where
  "effect_deps h = (isPlaying h, currentWordIndex h, currentText h)"

definition after_render :: "hook_state \<Rightarrow> hook_state \<Rightarrow> viewer_state \<Rightarrow> viewer_state" where
  "after_render h h' v = (if effect_deps h' \<noteq> effect_deps h then reading_progress_effect h' v else v)"

text \<open>
  What can happen to the viewer: the mount effect of the hook, the calls of the hook's
  functions, each made from the latest render, the stop button (\<^verbatim>\<open>handleSpeechStop\<close>, which also clears the highlight), and an
  event of any utterance, current or superseded, given with the text of its \<^verbatim>\<open>speak\<close> call.
\<close>

datatype action =
  Mount bool
| Speak string SpeechOptions
| Pause
| Resume
| Stop
| SpeechStop
| Event string speech_event

fun hook_step :: "action \<Rightarrow> hook_state \<Rightarrow> hook_state" where
  "hook_step (Mount available) h = mount available h"
| "hook_step (Speak text options) h = speak text options h"
| "hook_step Pause h = pause h h"
| "hook_step Resume h = resume h h"
| "hook_step Stop h = stop h"
| "hook_step SpeechStop h = stop h"
| "hook_step (Event text ev) h = handle_event text ev h"

fun viewer_step :: "action \<Rightarrow> viewer_state \<Rightarrow> viewer_state" where
  "viewer_step SpeechStop v = v\<lparr> currentReadingText := [], readingHighlight := None \<rparr>"
| "viewer_step a v = v"

definition step :: "action \<Rightarrow> hook_state \<times> viewer_state \<Rightarrow> hook_state \<times> viewer_state" where
  "step a st = (hook_step a (fst st), after_render (fst st) (hook_step a (fst st)) (viewer_step a (snd st)))"

definition run :: "action list \<Rightarrow> hook_state \<times> viewer_state \<Rightarrow> hook_state \<times> viewer_state" where
  "run acts st = foldl (\<lambda>st a. step a st) st acts"

text \<open>
  The reading highlight of \<^verbatim>\<open>renderTextContent\<close>, applied to the slice \<open>content\<close> of the
  document that is on display: the three pieces the slice is cut into, or \<open>None\<close> when no
  highlight is drawn.
\<close>

definition reading_highlight_parts ::
  "hook_state \<Rightarrow> highlight option \<Rightarrow> string \<Rightarrow> (string \<times> string \<times> string) option" where
  "reading_highlight_parts h readingHl content =
     (if isPlaying h \<and> currentText h \<noteq> [] then
        (case readingHl of
           None \<Rightarrow> None
         | Some hl \<Rightarrow> Some (slice content 0 (hl_start hl),
                            slice content (hl_start hl) (hl_end hl),
                            slice_from content (hl_end hl)))
      else None)"

definition span_open :: string where
  \<open>span_open = ''<span class="bg-yellow-300 text-black font-bold border-2 border-yellow-500 px-1 rounded shadow-lg animate-pulse">''\<close>

definition span_close :: string where
  "span_close = ''</span>''"

definition highlighted_content :: "hook_state \<Rightarrow> highlight option \<Rightarrow> string \<Rightarrow> string" where
  "highlighted_content h readingHl content =
     (case reading_highlight_parts h readingHl content of
        None \<Rightarrow> content
      | Some (beforeHighlight, highlightedText, afterHighlight) \<Rightarrow>
          beforeHighlight @ span_open @ highlightedText @ span_close @ afterHighlight)"

text \<open>The slice of the document that \<^verbatim>\<open>renderTextContent\<close> shows for a page (pages count from 1).\<close>

definition page_content :: "string \<Rightarrow> nat \<Rightarrow> bool \<Rightarrow> string" where
  "page_content docContent currentPage double =
     (let startIndex = (currentPage - 1) * 2000;
          endIndex = startIndex + (if double then 4000 else 2000)
      in slice docContent startIndex endIndex)"

section \<open>The conversion jobs (FileConverter and fileConverter.ts)\<close>

record js_file =
  file_name :: string
  file_size :: nat

datatype job_status = Pending | Processing | Completed | Error

record ConversionJob =
  job_id :: string
  inputFile :: js_file
  inputFormat :: string
  outputFormat :: string
  status :: job_status
  progress :: real
  outputUrl :: "string option"
  error :: "string option"

text \<open>A thrown value: an \<^verbatim>\<open>Error\<close> object with its message, or anything else.\<close>

datatype thrown = ErrorObject string | OtherValue

text \<open>\<^verbatim>\<open>toLowerCase\<close> on the letters A to Z.\<close>

definition to_lower_char :: "char \<Rightarrow> char" where
  "to_lower_char c =
     (case map_of (zip ''ABCDEFGHIJKLMNOPQRSTUVWXYZ'' ''abcdefghijklmnopqrstuvwxyz'') c of
        None \<Rightarrow> c | Some l \<Rightarrow> l)"

definition toLowerCase :: "string \<Rightarrow> string" where
  "toLowerCase s = map to_lower_char s"

text \<open>
  What the file reader, the EPUB library and the PDF library do during one conversion is
  not decided by this code. It is a parameter: the number of spine items of the book, for
  each of the two EPUB converters whether it throws, after how many progress reports and
  with which value, and the object URL created for the PDF.
\<close>

record converter_env =
  spineItems :: nat
  advanced_fail :: "(nat \<times> thrown) option"
  simple_fail :: "(nat \<times> thrown) option"
  blobUrl :: string

text \<open>The values a converter passes to \<^verbatim>\<open>onProgress\<close> when nothing fails, in order.\<close>

definition advanced_progress :: "nat \<Rightarrow> real list" where
  "advanced_progress totalItems =
     [10, 20, 30]
     @ map (\<lambda>processedItems. 30 + (real processedItems / real totalItems) * 60) [0..<totalItems]
     @ [95, 100]"

definition simple_progress :: "nat \<Rightarrow> real list" where
  "simple_progress totalItems =
     [20, 40] @ map (\<lambda>i. 40 + (real i / real totalItems) * 50) [0..<totalItems] @ [90, 100]"

text \<open>
  One converter call: the progress values it has reported, and the URL it resolves with
  (\<open>Inr\<close>) or the value it rejects with (\<open>Inl\<close>).
\<close>

definition attempt ::
  "real list \<Rightarrow> (nat \<times> thrown) option \<Rightarrow> string \<Rightarrow> real list \<times> (thrown + string)" where
  "attempt reports failure u =
     (case failure of
        None \<Rightarrow> (reports, Inr u)
      | Some (k, e) \<Rightarrow> (take k reports, Inl e))"

definition convertEpubToPdfAdvanced :: "converter_env \<Rightarrow> real list \<times> (thrown + string)" where
  "convertEpubToPdfAdvanced env =
     attempt (advanced_progress (spineItems env)) (advanced_fail env) (blobUrl env)"

definition convertEpubToPdfSimple :: "converter_env \<Rightarrow> real list \<times> (thrown + string)" where
  "convertEpubToPdfSimple env =
     attempt (simple_progress (spineItems env)) (simple_fail env) (blobUrl env)"

definition azw3_message :: string where
  "azw3_message = ''AZW3 files are typically DRM-protected and cannot be converted directly. ''
     @ ''Please use DRM-free files or convert to EPUB first using tools like Calibre.''"

definition convertAzw3ToPdf :: "real list \<times> (thrown + string)" where
  "convertAzw3ToPdf = ([25, 50, 75], Inl (ErrorObject azw3_message))"

text \<open>The \<^verbatim>\<open>catch\<close> of \<^verbatim>\<open>convertFileEnhanced\<close>: what it throws for a value it has caught.\<close>

definition conversion_failed :: "thrown \<Rightarrow> thrown" where
  "conversion_failed e =
     ErrorObject (''Conversion failed: ''
        @ (case e of ErrorObject message \<Rightarrow> message | OtherValue \<Rightarrow> ''Unknown error''))"

definition convertFileEnhanced ::
  "ConversionJob \<Rightarrow> converter_env \<Rightarrow> real list \<times> (thrown + string)" where
  "convertFileEnhanced job env =
     (if toLowerCase (inputFormat job) \<notin> set [''epub'', ''azw3''] then
        ([2], Inl (conversion_failed
                     (ErrorObject (''Unsupported input format: '' @ inputFormat job))))
      else if inputFormat job = ''epub'' then
        (case convertEpubToPdfAdvanced env of
           (ps, Inr u) \<Rightarrow> (2 # 5 # ps, Inr u)
         | (ps, Inl advancedError) \<Rightarrow>
             (case convertEpubToPdfSimple env of
                (qs, Inr u) \<Rightarrow> (2 # 5 # ps @ 10 # qs, Inr u)
              | (qs, Inl e) \<Rightarrow> (2 # 5 # ps @ 10 # qs, Inl (conversion_failed e))))
      else if inputFormat job = ''azw3'' then
        (case convertAzw3ToPdf of
           (ps, Inr u) \<Rightarrow> (2 # 5 # ps, Inr u)
         | (ps, Inl e) \<Rightarrow> (2 # 5 # ps, Inl (conversion_failed e)))
      else ([2, 5], Inl (conversion_failed (ErrorObject ''Unsupported format''))))"

subsection \<open>The job runner\<close>

text \<open>The updaters that the runner passes to \<^verbatim>\<open>setJobs\<close>.\<close>

definition add_job :: "ConversionJob \<Rightarrow> ConversionJob list \<Rightarrow> ConversionJob list" where
  "add_job job prev = prev @ [job]"

definition set_processing :: "string \<Rightarrow> ConversionJob list \<Rightarrow> ConversionJob list" where
  "set_processing jid prev = map (\<lambda>j. if job_id j = jid then j\<lparr> status := Processing \<rparr> else j) prev"

definition set_progress :: "string \<Rightarrow> real \<Rightarrow> ConversionJob list \<Rightarrow> ConversionJob list" where
  "set_progress jid p prev = map (\<lambda>j. if job_id j = jid then j\<lparr> progress := p \<rparr> else j) prev"

definition set_completed :: "string \<Rightarrow> string \<Rightarrow> ConversionJob list \<Rightarrow> ConversionJob list" where
  "set_completed jid u prev =
     map (\<lambda>j. if job_id j = jid
               then j\<lparr> status := Completed, outputUrl := Some u, progress := 100 \<rparr> else j) prev"

definition set_error :: "string \<Rightarrow> thrown \<Rightarrow> ConversionJob list \<Rightarrow> ConversionJob list" where
  "set_error jid e prev =
     map (\<lambda>j. if job_id j = jid
               then j\<lparr> status := Error,
                       error := Some (case e of ErrorObject message \<Rightarrow> message
                                              | OtherValue \<Rightarrow> ''Conversion failed''),
                       progress := 0 \<rparr>
               else j) prev"

definition set_retry :: "string \<Rightarrow> ConversionJob list \<Rightarrow> ConversionJob list" where
  "set_retry jid prev =
     map (\<lambda>j. if job_id j = jid
               then j\<lparr> status := Processing, progress := 0, error := None \<rparr> else j) prev"

text \<open>
  The updaters of one conversion, in the order the runner issues them: one for each
  progress report, then the one for the outcome.
\<close>

definition conversion_updates ::
  "ConversionJob \<Rightarrow> converter_env \<Rightarrow> (ConversionJob list \<Rightarrow> ConversionJob list) list" where
  "conversion_updates job env =
     (case convertFileEnhanced job env of
        (ps, Inr u) \<Rightarrow> map (set_progress (job_id job)) ps @ [set_completed (job_id job) u]
      | (ps, Inl e) \<Rightarrow> map (set_progress (job_id job)) ps @ [set_error (job_id job) e])"

definition file_extension :: "js_file \<Rightarrow> string" where
  "file_extension file = last (split_char (CHR ''.'') (toLowerCase (file_name file)))"

definition new_job :: "js_file \<Rightarrow> string \<Rightarrow> ConversionJob" where
  "new_job file newId =
     \<lparr> job_id = newId, inputFile = file, inputFormat = file_extension file, outputFormat = ''pdf'',
       status = Pending, progress = 0, outputUrl = None, error = None \<rparr>"

definition error_job :: "js_file \<Rightarrow> string \<Rightarrow> ConversionJob" where
  "error_job file newId =
     \<lparr> job_id = newId, inputFile = file,
       inputFormat = (if file_extension file = [] then ''unknown'' else file_extension file),
       outputFormat = ''pdf'', status = Error, progress = 0, outputUrl = None,
       error = Some (''Unsupported file format: '' @ file_extension file
                      @ ''. Only EPUB and AZW3 files are supported.'') \<rparr>"

text \<open>
  The body of the loop of \<^verbatim>\<open>handleFilesDrop\<close> for one file, with the identifier drawn for
  its job; and \<^verbatim>\<open>retryJob\<close>.
\<close>

definition file_updates ::
  "js_file \<Rightarrow> string \<Rightarrow> converter_env \<Rightarrow> (ConversionJob list \<Rightarrow> ConversionJob list) list" where
  "file_updates file newId env =
     (if file_extension file = ''epub'' \<or> file_extension file = ''azw3'' then
        add_job (new_job file newId) # set_processing newId
          # conversion_updates (new_job file newId) env
      else [add_job (error_job file newId)])"

definition retry_updates ::
  "ConversionJob \<Rightarrow> converter_env \<Rightarrow> (ConversionJob list \<Rightarrow> ConversionJob list) list" where
  "retry_updates job env = set_retry (job_id job) # conversion_updates job env"


definition apply_updates :: "('s \<Rightarrow> 's) list \<Rightarrow> 's \<Rightarrow> 's" where
  "apply_updates fs s = foldl (\<lambda>s f. f s) s fs"

definition handleFilesDrop ::
  "(js_file \<times> string \<times> converter_env) list \<Rightarrow> ConversionJob list \<Rightarrow> ConversionJob list" where
  "handleFilesDrop files jobs =
     foldl (\<lambda>jobs (file, newId, env). apply_updates (file_updates file newId env) jobs) jobs files"

definition retryJob :: "ConversionJob \<Rightarrow> converter_env \<Rightarrow> ConversionJob list \<Rightarrow> ConversionJob list" where
  "retryJob job env jobs = apply_updates (retry_updates job env) jobs"



definition clearJobs ::
  "ConversionJob list \<Rightarrow> ConversionJob list \<times> string list \<Rightarrow> ConversionJob list \<times> string list" where
  "clearJobs jobs st =
     (case st of (prev, revoked) \<Rightarrow>
        ([], revoked @ concat (map (\<lambda>job. case outputUrl job of
                                            None \<Rightarrow> []
                                          | Some u \<Rightarrow> if u \<noteq> [] then [u] else []) jobs)))"

section \<open>The music player (MusicPlayerModule)\<close>


datatype repeat_mode = RepeatNone | RepeatOne | RepeatAll



section \<open>The PDF renderer (PDFRenderer)\<close>

text \<open>
  A loaded document is the list of its pages, each with its size at scale 1 and its text
  items. A canvas carries the number of the \<^verbatim>\<open>createElement\<close> call that made it, which
  tells two canvases apart.
\<close>

record pdf_page =
  base_width :: real
  base_height :: real
  text_items :: "string list"

record canvas =
  canvas_id :: nat
  canvas_width :: real
  canvas_height :: real

record PDFPageData =
  pageNumber :: nat
  canvas :: canvas
  textContent :: string
  width :: real
  height :: real

record PDFRenderer =
  pdf :: "pdf_page list option"
  pages :: "nat \<rightharpoonup> PDFPageData"
  canvases_created :: nat

datatype render_error = PDF_not_loaded | Invalid_page_request

definition renderPage ::
  "nat \<Rightarrow> real \<Rightarrow> PDFRenderer \<Rightarrow> render_error + (PDFPageData \<times> PDFRenderer)" where
  "renderPage pageNum scale r =
     (case pdf r of
        None \<Rightarrow> Inl PDF_not_loaded
      | Some doc \<Rightarrow>
          (case pages r pageNum of
             Some cached \<Rightarrow> Inr (cached, r)
           | None \<Rightarrow>
               if pageNum < 1 \<or> length doc < pageNum then Inl Invalid_page_request
               else
                 (let page = doc ! (pageNum - 1);
                      viewport_width = base_width page * scale;
                      viewport_height = base_height page * scale;
                      pageData =
                        \<lparr> pageNumber = pageNum,
                          canvas = \<lparr> canvas_id = canvases_created r,
                                     canvas_width = viewport_width,
                                     canvas_height = viewport_height \<rparr>,
                          textContent = join_sp (text_items page),
                          width = viewport_width,
                          height = viewport_height \<rparr>
                  in Inr (pageData,
                          r\<lparr> pages := (pages r)(pageNum \<mapsto> pageData),
                             canvases_created := Suc (canvases_created r) \<rparr>))))"

definition clearCache :: "PDFRenderer \<Rightarrow> PDFRenderer" where
  "clearCache r = r\<lparr> pages := Map.empty \<rparr>"

section \<open>Specification functions\<close>

text \<open>
  The value \<^verbatim>\<open>charCount\<close> has when the loop of \<^verbatim>\<open>onboundary\<close> reaches word \<open>k\<close>: the
  lengths of the words before it, plus one separator for each; and the test the loop makes
  at word \<open>k\<close>.
\<close>

definition word_start :: "string list \<Rightarrow> nat \<Rightarrow> nat" where
  "word_start ws k = (\<Sum>w\<leftarrow>take k ws. length w + 1)"


text \<open>The end of the reading highlight lies within the text of the hook.\<close>

definition highlight_in_text :: "hook_state \<times> viewer_state \<Rightarrow> bool" where
  "highlight_in_text st =
     (case readingHighlight (snd st) of
        None \<Rightarrow> True
      | Some hl \<Rightarrow> hl_start hl \<le> hl_end hl \<and> hl_end hl \<le> length (currentText (fst st)))"

section \<open>Example values\<close>

text \<open>A state of the hook while the second word of \<^verbatim>\<open>Hello world\<close> is spoken.\<close>

definition example_playing :: hook_state where
  "example_playing =
     \<lparr> isSupported = True, isPlaying = True, isPaused = False, currentUtterance = None,
       currentWordIndex = 1, currentText = ''Hello world'', isInitialized = True,
       utteranceRef = None, isPlayingRef = True \<rparr>"

text \<open>The hook after its mount effect, with speech support; the default options of \<^verbatim>\<open>speak\<close>.\<close>

definition ready_hook :: hook_state where
  "ready_hook = mount True initial_hook"

definition default_options :: SpeechOptions where
  "default_options = \<lparr> rate = Fin 1, pitch = Fin 1, volume = Fin 1, voice = None \<rparr>"

text \<open>The state right after \<^verbatim>\<open>speak("Hello world")\<close> followed by \<^verbatim>\<open>speak("Goodbye")\<close>.\<close>

definition superseded_state :: hook_state where
  "superseded_state =
     speak ''Goodbye'' default_options (speak ''Hello world'' default_options ready_hook)"

text \<open>A run of the viewer: mount, \<^verbatim>\<open>speak("Hello world")\<close>, the start event and a boundary
  event at offset 8.\<close>

definition example_run :: "action list" where
  "example_run =
     [Mount True, Speak ''Hello world'' default_options, Event ''Hello world'' OnStart,
      Event ''Hello world'' (OnBoundary ''word'' (Fin 8))]"

text \<open>A finished job with an object URL, and a player with one track.\<close>

definition example_file :: js_file where
  "example_file = \<lparr> file_name = ''Book.EPUB'', file_size = 1000 \<rparr>"




text \<open>A renderer with a document of one page, before and after \<^verbatim>\<open>renderPage(1, 1.5)\<close>.\<close>

definition example_renderer :: PDFRenderer where
  "example_renderer =
     \<lparr> pdf = Some [\<lparr> base_width = 600, base_height = 800, text_items = [''Hello'', ''world''] \<rparr>],
       pages = Map.empty, canvases_created = 0 \<rparr>"

definition example_page :: PDFPageData where
  "example_page =
     \<lparr> pageNumber = 1, canvas = \<lparr> canvas_id = 0, canvas_width = 900, canvas_height = 1200 \<rparr>,
       textContent = ''Hello world'', width = 900, height = 1200 \<rparr>"

definition example_rendered :: PDFRenderer where
  "example_rendered = example_renderer\<lparr> pages := [1 \<mapsto> example_page], canvases_created := 1 \<rparr>"

text \<open>
  Two conversions of the example file: one where both EPUB converters fail on a corrupt
  archive after their second progress report, and one where the advanced converter
  succeeds on a book of two spine items.
\<close>

definition corrupt_env :: converter_env where
  "corrupt_env = \<lparr> spineItems = 3,
      advanced_fail = Some (2, ErrorObject ''corrupt archive''),
      simple_fail = Some (2, ErrorObject ''corrupt archive''),
      blobUrl = ''blob:pdf'' \<rparr>"


section \<open>Pause and resume\<close>




section \<open>Rate, pitch and volume of an utterance\<close>

text \<open>
  For finite options other than 0, the utterance stores the clamps: the rate in
  \<open>[0.1, 10]\<close>, the pitch in \<open>[0, 2]\<close>, the volume in \<open>[0, 1]\<close>.
\<close>

lemma new_utterance_clamps_nonzero:
  assumes "r \<noteq> 0" "p \<noteq> 0" "v \<noteq> 0"
  shows "new_utterance text \<lparr> rate = Fin r, pitch = Fin p, volume = Fin v, voice = vo \<rparr>
       = \<lparr> u_text = text, u_rate = Fin (max 0.1 (min 10 r)), u_pitch = Fin (max 0 (min 2 p)),
           u_volume = Fin (max 0 (min 1 v)), u_voice = vo \<rparr>"
  using assms by (simp add: new_utterance_def)

lemma new_utterance_spec_examples:
  "new_utterance text \<lparr> rate = Fin 15, pitch = Fin (- 1), volume = Fin 1.5, voice = None \<rparr>
     = \<lparr> u_text = text, u_rate = Fin 10, u_pitch = Fin 0, u_volume = Fin 1, u_voice = None \<rparr>"
  by (simp add: new_utterance_def)

text \<open>
  C4. The option 0 is falsy, so \<^verbatim>\<open>options.volume || 1\<close> replaces it by 1 before the
  clamp: a volume of 0 is stored as 1 and a pitch of 0 as 1, although both lie in their
  ranges, and a rate of 0 is stored as 1, not as the nearest bound 0.1.
\<close>

theorem speak_zero_option_stored_as_one:
  "u_volume (new_utterance ''Hello'' \<lparr> rate = Fin 1, pitch = Fin 1, volume = Fin 0, voice = None \<rparr>) = Fin 1
 \<and> u_pitch (new_utterance ''Hello'' \<lparr> rate = Fin 1, pitch = Fin 0, volume = Fin 1, voice = None \<rparr>) = Fin 1
 \<and> u_rate (new_utterance ''Hello'' \<lparr> rate = Fin 0, pitch = Fin 1, volume = Fin 1, voice = None \<rparr>) = Fin 1"
  by (simp add: new_utterance_def)

section \<open>The word-position tracker\<close>

subsection \<open>The loop of the boundary handler\<close>



subsection \<open>Splitting and joining on single spaces\<close>

lemma join_sp_length: "ws \<noteq> [] \<Longrightarrow> length (join_sp ws) + 1 = word_start ws (length ws)"
  by (induction ws rule: join_sp.induct) (simp_all add: word_start_def)

lemma join_sp_take_length:
  "k \<le> length ws \<Longrightarrow> length (join_sp (take k ws)) + (if k > 0 then 1 else 0) = word_start ws k"
proof (cases "k = 0")
  case True
  then show ?thesis by (simp add: word_start_def)
next
  case False
  assume "k \<le> length ws"
  with False have "take k ws \<noteq> []" by auto
  from join_sp_length [OF this] \<open>k \<le> length ws\<close> False
  show ?thesis by (simp add: word_start_def min_def)
qed

lemma word_start_mono:
  "k < length ws \<Longrightarrow> word_start ws k + length (ws ! k) + 1 \<le> word_start ws (length ws)"
proof (induction ws arbitrary: k)
  case Nil
  then show ?case by simp
next
  case (Cons w ws)
  then show ?case by (cases k) (auto simp: word_start_def)
qed

lemma split_char_nonempty: "split_char sep s \<noteq> []"
  by (induction s) (auto split: list.splits)

lemma join_split_char: "join_sp (split_char (CHR '' '') s) = s"
proof (induction s)
  case Nil
  then show ?case by simp
next
  case (Cons c s)
  obtain w ws where sp: "split_char (CHR '' '') s = w # ws"
    using split_char_nonempty [of "CHR '' ''" s] by (cases "split_char (CHR '' '') s") auto
  with Cons show ?case by (cases ws) auto
qed

lemma word_end_in_text:
  assumes "k < length (split_sp text)"
  shows "word_start (split_sp text) k + length (split_sp text ! k) \<le> length text"
proof -
  have ne: "split_sp text \<noteq> []" by (simp add: split_sp_def split_char_nonempty)
  have "length (join_sp (split_sp text)) + 1 = word_start (split_sp text) (length (split_sp text))"
    by (rule join_sp_length [OF ne])
  moreover have "join_sp (split_sp text) = text" by (simp add: split_sp_def join_split_char)
  ultimately show ?thesis using word_start_mono [OF assms] by simp
qed

lemma effect_highlight:
  "isPlaying h \<and> currentText h \<noteq> [] \<and> currentWordIndex h < length (split_sp (currentText h)) \<Longrightarrow>
   readingHighlight (reading_progress_effect h v) =
     Some \<lparr> hl_start = word_start (split_sp (currentText h)) (currentWordIndex h),
            hl_end = word_start (split_sp (currentText h)) (currentWordIndex h)
                     + length (split_sp (currentText h) ! currentWordIndex h) \<rparr>"
  using join_sp_take_length [of "currentWordIndex h" "split_sp (currentText h)"]
  by (simp add: reading_progress_effect_def Let_def)

lemma split_ws_hello: "split_ws ''Hello world'' = [''Hello'', ''world'']"
  by (simp add: is_space_def)


subsection \<open>What a boundary event does to the cursor\<close>




section \<open>The reading highlight stays inside the text\<close>

lemma effect_cases:
  "readingHighlight (reading_progress_effect h v) = None
 \<or> (\<exists>hl. readingHighlight (reading_progress_effect h v) = Some hl
          \<and> hl_start hl \<le> hl_end hl \<and> hl_end hl \<le> length (currentText h))
 \<or> (isPlaying h \<and> readingHighlight (reading_progress_effect h v) = readingHighlight v)"
proof (cases "isPlaying h \<and> currentText h \<noteq> []")
  case False
  then show ?thesis by (auto simp: reading_progress_effect_def)
next
  case playing: True
  show ?thesis
  proof (cases "currentWordIndex h < length (split_sp (currentText h))")
    case True
    with playing effect_highlight [of h v] word_end_in_text [of "currentWordIndex h" "currentText h"]
    show ?thesis by simp
  next
    case False
    with playing show ?thesis by (simp add: reading_progress_effect_def Let_def)
  qed
qed

lemma hook_step_text:
  "currentText (hook_step a h) =
     (case a of
        Speak text options \<Rightarrow>
          if isSupported h \<and> text \<noteq> [] \<and> isInitialized h then text else currentText h
      | _ \<Rightarrow> currentText h)"
proof (cases a)
  case (Event t ev)
  then show ?thesis by (cases ev) simp_all
qed (simp_all add: mount_def speak_def pause_def resume_def stop_def)

lemma speak_not_playing:
  "currentText (speak text options h) \<noteq> currentText h \<Longrightarrow> \<not> isPlaying (speak text options h)"
  by (simp add: speak_def split: if_splits)

lemma viewer_step_highlight:
  "readingHighlight (viewer_step a v) = None \<or> readingHighlight (viewer_step a v) = readingHighlight v"
  by (cases a) simp_all

lemma step_highlight_in_text:
  assumes "highlight_in_text st"
  shows "highlight_in_text (step a st)"
proof -
  obtain h v where st: "st = (h, v)" by (cases st)
  define h' where "h' = hook_step a h"
  define v' where "v' = viewer_step a v"
  have same_text: "currentText h' \<noteq> currentText h \<Longrightarrow> \<not> isPlaying h'"
    using hook_step_text [of a h] speak_not_playing unfolding h'_def
    by (cases a) (auto split: if_splits)
  have v'_ok: "currentText h' = currentText h \<Longrightarrow> highlight_in_text (h', v')"
    using assms viewer_step_highlight [of a v]
    by (auto simp: st v'_def highlight_in_text_def split: option.splits)
  have res: "step a st = (h', after_render h h' v')"
    by (simp add: step_def st h'_def v'_def)
  show ?thesis
  proof (cases "effect_deps h' \<noteq> effect_deps h")
    case False
    then have "currentText h' = currentText h" by (simp add: effect_deps_def)
    with v'_ok False show ?thesis by (simp add: res after_render_def highlight_in_text_def)
  next
    case True
    then have ar: "after_render h h' v' = reading_progress_effect h' v'" by (simp add: after_render_def)
    from effect_cases [of h' v'] show ?thesis
    proof (elim disjE exE conjE)
      assume "readingHighlight (reading_progress_effect h' v') = None"
      then show ?thesis by (simp add: res ar highlight_in_text_def)
    next
      fix hl assume "readingHighlight (reading_progress_effect h' v') = Some hl"
        "hl_start hl \<le> hl_end hl" "hl_end hl \<le> length (currentText h')"
      then show ?thesis by (simp add: res ar highlight_in_text_def)
    next
      assume p: "isPlaying h'" and e: "readingHighlight (reading_progress_effect h' v') = readingHighlight v'"
      from p same_text have "currentText h' = currentText h" by blast
      from v'_ok [OF this] e show ?thesis
        by (auto simp: res ar highlight_in_text_def split: option.splits)
    qed
  qed
qed

lemma run_highlight_in_text:
  "highlight_in_text st \<Longrightarrow> highlight_in_text (run acts st)"
  unfolding run_def
  by (induction acts arbitrary: st) (simp_all add: step_highlight_in_text)

lemma initial_highlight_in_text: "highlight_in_text (initial_hook, initial_viewer)"
  by (simp add: highlight_in_text_def initial_viewer_def)

lemma example_run_result:
  "readingHighlight (snd (run example_run (initial_hook, initial_viewer))) = Some \<lparr> hl_start = 6, hl_end = 11 \<rparr>
 \<and> currentText (fst (run example_run (initial_hook, initial_viewer))) = ''Hello world''"
  by (simp add: example_run_def run_def step_def initial_hook_def initial_viewer_def mount_def
      speak_def default_options_def after_render_def effect_deps_def reading_progress_effect_def
      boundary_wordIndex_def split_sp_def is_space_def Let_def)

text \<open>
  C8. In every state the viewer reaches from its initial state, by any sequence of calls
  of the hook's functions and of events of any utterance, the reading highlight, when there
  is one, ends at or before the end of \<^verbatim>\<open>currentText\<close>; and \<^verbatim>\<open>currentText\<close> is the text of
  the last \<^verbatim>\<open>speak\<close> call that was not refused: only such a call changes it.
\<close>

theorem highlight_end_within_text:
  "highlight_in_text (run acts (initial_hook, initial_viewer))
 \<and> currentText (fst (step a st)) =
     (case a of
        Speak text options \<Rightarrow>
          if isSupported (fst st) \<and> text \<noteq> [] \<and> isInitialized (fst st) then text
          else currentText (fst st)
      | _ \<Rightarrow> currentText (fst st))"
  using run_highlight_in_text [OF initial_highlight_in_text, of acts] hook_step_text [of a "fst st"]
  by (simp add: step_def)

theorem highlight_end_within_text_witness:
  "highlight_in_text (run example_run (initial_hook, initial_viewer))
 \<and> readingHighlight (snd (run example_run (initial_hook, initial_viewer))) = Some \<lparr> hl_start = 6, hl_end = 11 \<rparr>
 \<and> length (currentText (fst (run example_run (initial_hook, initial_viewer)))) = 11"
  using highlight_end_within_text [of example_run Pause "(initial_hook, initial_viewer)"] example_run_result
  by simp

section \<open>Events of a superseded utterance\<close>

lemma superseded_state_eq:
  "superseded_state =
     \<lparr> isSupported = True, isPlaying = False, isPaused = False,
       currentUtterance = Some (new_utterance ''Goodbye'' default_options),
       currentWordIndex = 0, currentText = ''Goodbye'', isInitialized = True,
       utteranceRef = Some (new_utterance ''Goodbye'' default_options), isPlayingRef = False \<rparr>"
  by (simp add: superseded_state_def ready_hook_def mount_def initial_hook_def speak_def)

text \<open>
  C1, as the code has it. The handlers of an utterance carry no generation or identity
  check. After a second \<^verbatim>\<open>speak\<close> call, an \<^verbatim>\<open>interrupted\<close> error event of the first
  utterance leaves the state as it is; its boundary, start and end events are applied to
  the state as they would be for the current utterance, and a word boundary event sets the
  word index to the one computed from the first utterance's text.
\<close>

theorem stale_events_are_applied:
  "handle_event t1 (OnError ''interrupted'') (speak t2 o2 (speak t1 o1 s)) = speak t2 o2 (speak t1 o1 s)
 \<and> handle_event t1 (OnBoundary ''word'' x) (speak t2 o2 (speak t1 o1 s))
     = (speak t2 o2 (speak t1 o1 s))\<lparr> currentWordIndex := boundary_wordIndex t1 x \<rparr>
 \<and> handle_event t1 OnStart (speak t2 o2 (speak t1 o1 s))
     = (speak t2 o2 (speak t1 o1 s))\<lparr> isPlaying := True, isPaused := False, isPlayingRef := True \<rparr>
 \<and> handle_event t1 OnEnd (speak t2 o2 (speak t1 o1 s))
     = (speak t2 o2 (speak t1 o1 s))\<lparr> isPlaying := False, isPaused := False, currentUtterance := None,
          currentWordIndex := 0, isPlayingRef := False, utteranceRef := None \<rparr>"
  by simp

theorem stale_events_are_applied_witness:
  "handle_event ''Hello world'' (OnError ''interrupted'') superseded_state = superseded_state
 \<and> handle_event ''Hello world'' (OnBoundary ''word'' (Fin 8)) superseded_state
     = superseded_state\<lparr> currentWordIndex := 1 \<rparr>
 \<and> isPlaying (handle_event ''Hello world'' OnStart superseded_state)
 \<and> currentText (handle_event ''Hello world'' OnStart superseded_state) = ''Goodbye''"
proof -
  have i: "boundary_wordIndex ''Hello world'' (Fin 8) = 1"
    by (simp add: boundary_wordIndex_def split_ws_hello del: split_ws.simps)
  have t: "currentText superseded_state = ''Goodbye''"
    by (simp add: superseded_state_eq)
  from stale_events_are_applied [of "''Hello world''" "''Goodbye''" default_options default_options
      ready_hook "Fin 8"] i t
  show ?thesis by (simp add: superseded_state_def)
qed

text \<open>
  C1 as stated fails: after \<^verbatim>\<open>speak("Hello world")\<close> and \<^verbatim>\<open>speak("Goodbye")\<close>, a late word
  boundary event of the first utterance at offset 8 moves the word index from 0 to 1.
\<close>

theorem stale_boundary_counterexample:
  "currentText superseded_state = ''Goodbye''
 \<and> currentWordIndex superseded_state = 0
 \<and> currentWordIndex (handle_event ''Hello world'' (OnBoundary ''word'' (Fin 8)) superseded_state) = 1
 \<and> handle_event ''Hello world'' (OnBoundary ''word'' (Fin 8)) superseded_state \<noteq> superseded_state"
proof -
  have i: "boundary_wordIndex ''Hello world'' (Fin 8) = 1"
    by (simp add: boundary_wordIndex_def split_ws_hello del: split_ws.simps)
  have a: "currentWordIndex (handle_event ''Hello world'' (OnBoundary ''word'' (Fin 8)) superseded_state) = 1"
    by (simp add: i)
  have b: "currentWordIndex superseded_state = 0" "currentText superseded_state = ''Goodbye''"
    by (simp_all add: superseded_state_eq)
  from a b have "handle_event ''Hello world'' (OnBoundary ''word'' (Fin 8)) superseded_state \<noteq> superseded_state"
    by (metis zero_neq_one)
  with a b show ?thesis by simp
qed

section \<open>The highlight drawn on the displayed slice\<close>

text \<open>When the range is well formed, the three pieces make up the slice again.\<close>

lemma highlight_parts_partition:
  assumes "reading_highlight_parts h hl content = Some (b, m, a)" and "hl = Some r" and "hl_start r \<le> hl_end r"
  shows "b @ m @ a = content"
proof -
  have "take (hl_start r) content @ take (hl_end r - hl_start r) (drop (hl_start r) content)
          @ drop (hl_end r) content = content"
    using assms(3)
    by (metis add_diff_cancel_left' append.assoc append_take_drop_id le_Suc_ex take_add)
  with assms show ?thesis
    by (auto simp: reading_highlight_parts_def slice_def slice_from_def split: if_splits)
qed

text \<open>
  C3, as the code has it. The highlight query never compares the slice on display with the
  text that is read. It draws no highlight exactly when nothing is playing, the current
  text is empty or no range is set, whatever the slice; otherwise it cuts the slice it is
  given at the offsets of the range.
\<close>

theorem highlight_query_ignores_slice:
  "(reading_highlight_parts h hl content = None
      \<longleftrightarrow> \<not> isPlaying h \<or> currentText h = [] \<or> hl = None)
 \<and> (isPlaying h \<and> currentText h \<noteq> [] \<longrightarrow>
      reading_highlight_parts h (Some r) content
        = Some (take (hl_start r) content,
                take (hl_end r - hl_start r) (drop (hl_start r) content),
                drop (hl_end r) content))
 \<and> (reading_highlight_parts h hl content = None \<longrightarrow> highlighted_content h hl content = content)"
  by (auto simp: reading_highlight_parts_def highlighted_content_def slice_def slice_from_def
      split: option.splits)

theorem highlight_query_ignores_slice_witness:
  "reading_highlight_parts example_playing (Some \<lparr> hl_start = 6, hl_end = 11 \<rparr>) ''A different page''
     = Some (''A diff'', ''erent'', '' page'')
 \<and> reading_highlight_parts example_playing None ''A different page'' = None
 \<and> highlighted_content example_playing None ''A different page'' = ''A different page''"
  using highlight_query_ignores_slice [of example_playing None "''A different page''" "\<lparr> hl_start = 6, hl_end = 11 \<rparr>"]
  by (simp add: example_playing_def)

text \<open>
  C3 as stated fails: while word 1 of \<^verbatim>\<open>Hello world\<close> is read, the range 6 to 11 is drawn
  on the first page of a document that holds another text.
\<close>

theorem highlight_on_other_text_counterexample:
  "currentText example_playing = ''Hello world''
 \<and> page_content ''A different page'' 1 False = ''A different page''
 \<and> readingHighlight (reading_progress_effect example_playing initial_viewer)
     = Some \<lparr> hl_start = 6, hl_end = 11 \<rparr>
 \<and> reading_highlight_parts example_playing
       (readingHighlight (reading_progress_effect example_playing initial_viewer))
       (page_content ''A different page'' 1 False)
     = Some (''A diff'', ''erent'', '' page'')"
  by (simp add: example_playing_def reading_progress_effect_def split_sp_def Let_def
      reading_highlight_parts_def page_content_def slice_def slice_from_def)

section \<open>Releasing object URLs on removal\<close>








section \<open>The page cache of the PDF renderer\<close>

lemma renderPage_cached:
  assumes "renderPage p s1 r = Inr (d, r')"
  shows "pdf r' \<noteq> None \<and> pages r' p = Some d"
  using assms
  by (auto simp: renderPage_def Let_def split: option.splits if_splits)

text \<open>
  C10. When \<^verbatim>\<open>renderPage(p, s1)\<close> has returned page data, \<^verbatim>\<open>renderPage(p, s2)\<close> returns
  the same page data and leaves the renderer as it is, for every scale \<open>s2\<close>: the cache is
  keyed by the page number alone. If the first call did render the page, the data has the
  size of the page at scale \<open>s1\<close>; and after \<^verbatim>\<open>clearCache()\<close> the page is rendered again,
  at scale \<open>s2\<close> and on a new canvas.
\<close>

theorem renderPage_ignores_scale:
  assumes "renderPage p s1 r = Inr (d, r')"
  shows "renderPage p s2 r' = Inr (d, r')
       \<and> (\<forall>doc. pdf r = Some doc \<and> pages r p = None \<longrightarrow>
            width d = base_width (doc ! (p - 1)) * s1
          \<and> height d = base_height (doc ! (p - 1)) * s1
          \<and> (\<exists>d2 r2. renderPage p s2 (clearCache r') = Inr (d2, r2)
                \<and> width d2 = base_width (doc ! (p - 1)) * s2
                \<and> height d2 = base_height (doc ! (p - 1)) * s2
                \<and> canvas_id (canvas d2) \<noteq> canvas_id (canvas d)))"
proof -
  from renderPage_cached [OF assms] have "renderPage p s2 r' = Inr (d, r')"
    by (auto simp: renderPage_def)
  moreover have "\<forall>doc. pdf r = Some doc \<and> pages r p = None \<longrightarrow>
            width d = base_width (doc ! (p - 1)) * s1
          \<and> height d = base_height (doc ! (p - 1)) * s1
          \<and> (\<exists>d2 r2. renderPage p s2 (clearCache r') = Inr (d2, r2)
                \<and> width d2 = base_width (doc ! (p - 1)) * s2
                \<and> height d2 = base_height (doc ! (p - 1)) * s2
                \<and> canvas_id (canvas d2) \<noteq> canvas_id (canvas d))"
    using assms
    by (auto simp: renderPage_def clearCache_def Let_def split: option.splits if_splits)
  ultimately show ?thesis by blast
qed

lemma example_render: "renderPage 1 1.5 example_renderer = Inr (example_page, example_rendered)"
  by (simp add: renderPage_def example_renderer_def example_page_def example_rendered_def Let_def)

theorem renderPage_ignores_scale_witness:
  "renderPage 1 1.5 example_renderer = Inr (example_page, example_rendered)
 \<and> pages example_renderer 1 = None
 \<and> renderPage 1 3 example_rendered = Inr (example_page, example_rendered)
 \<and> width example_page = 600 * 1.5
 \<and> (\<exists>d2 r2. renderPage 1 3 (clearCache example_rendered) = Inr (d2, r2) \<and> width d2 = 600 * 3)"
proof -
  have a: "pdf example_renderer = Some [\<lparr> base_width = 600, base_height = 800, text_items = [''Hello'', ''world''] \<rparr>]"
    "pages example_renderer 1 = None"
    by (simp_all add: example_renderer_def)
  from renderPage_ignores_scale [OF example_render, of 3] example_render a
  show ?thesis by auto
qed

section \<open>Progress of a conversion job\<close>

subsection \<open>The values the converters report\<close>









lemma toLowerCase_epub: "toLowerCase ''epub'' = ''epub''"
  by (simp add: toLowerCase_def to_lower_char_def)


lemma convertFileEnhanced_throws_Error:
  "snd (convertFileEnhanced job env) = Inl e \<Longrightarrow> \<exists>message. e = ErrorObject message"
  by (auto simp: convertFileEnhanced_def conversion_failed_def convertAzw3ToPdf_def
      split: if_splits prod.splits sum.splits)



subsection \<open>The runner's updaters\<close>

lemma set_error_absorbs_progress: "set_error jid e (set_progress jid p js) = set_error jid e js"
  by (simp add: set_error_def set_progress_def)

lemma set_completed_absorbs_progress: "set_completed jid u (set_progress jid p js) = set_completed jid u js"
  by (simp add: set_completed_def set_progress_def)

lemma apply_updates_Cons: "apply_updates (f # fs) s = apply_updates fs (f s)"
  by (simp add: apply_updates_def)

lemma apply_progress_then_error:
  "apply_updates (map (set_progress jid) ps @ [set_error jid e]) js = set_error jid e js"
  by (induction ps arbitrary: js) (simp_all add: apply_updates_def set_error_absorbs_progress)









lemma fresh_map:
  "newId \<notin> job_id ` set jobs \<Longrightarrow> map (\<lambda>j. if job_id j = newId then f j else j) jobs = jobs"
  by (induction jobs) auto

lemma example_file_extension: "file_extension example_file = ''epub''"
  by (simp add: file_extension_def example_file_def toLowerCase_def to_lower_char_def)

lemma new_job_format: "inputFormat (new_job file newId) = file_extension file"
  "job_id (new_job file newId) = newId" "status (new_job file newId) = Pending"
  by (simp_all add: new_job_def)

lemma corrupt_trace:
  "convertFileEnhanced (new_job example_file ''j1'') corrupt_env
     = ([2, 5, 10, 20, 10, 20, 40], Inl (ErrorObject ''Conversion failed: corrupt archive''))"
  by (simp add: convertFileEnhanced_def new_job_format example_file_extension toLowerCase_epub
      convertEpubToPdfAdvanced_def convertEpubToPdfSimple_def attempt_def corrupt_env_def
      advanced_progress_def simple_progress_def conversion_failed_def)






section \<open>Failure of a conversion\<close>

lemma file_failure_final:
  assumes ext: "file_extension file = ''epub'' \<or> file_extension file = ''azw3''"
    and fresh: "newId \<notin> job_id ` set jobs"
    and fails: "snd (convertFileEnhanced (new_job file newId) env) = Inl e"
  shows "apply_updates (file_updates file newId env) jobs
           = jobs @ [(new_job file newId)\<lparr> status := Error,
                       error := Some (case e of ErrorObject message \<Rightarrow> message
                                              | OtherValue \<Rightarrow> ''Conversion failed''),
                       progress := 0 \<rparr>]"
proof -
  let ?job = "new_job file newId"
  obtain ps where c: "convertFileEnhanced ?job env = (ps, Inl e)"
    using fails by (cases "convertFileEnhanced ?job env") auto
  have upd: "file_updates file newId env
               = add_job ?job # set_processing newId # (map (set_progress newId) ps @ [set_error newId e])"
    using ext c by (simp add: file_updates_def conversion_updates_def new_job_format)
  have "apply_updates (file_updates file newId env) jobs
          = set_error newId e (set_processing newId (add_job ?job jobs))"
    by (simp add: upd apply_updates_Cons apply_progress_then_error)
  also have "\<dots> = jobs @ [?job\<lparr> status := Error,
                       error := Some (case e of ErrorObject message \<Rightarrow> message
                                              | OtherValue \<Rightarrow> ''Conversion failed''),
                       progress := 0 \<rparr>]"
    using fresh by (simp add: set_error_def set_processing_def add_job_def fresh_map new_job_format)
  finally show ?thesis .
qed

lemma retry_failure_final:
  assumes fails: "snd (convertFileEnhanced job env) = Inl e"
  shows "retryJob job env jobs
           = map (\<lambda>j. if job_id j = job_id job
                       then j\<lparr> status := Error,
                               error := Some (case e of ErrorObject message \<Rightarrow> message
                                                      | OtherValue \<Rightarrow> ''Conversion failed''),
                               progress := 0 \<rparr>
                       else j) jobs"
proof -
  obtain ps where c: "convertFileEnhanced job env = (ps, Inl e)"
    using fails by (cases "convertFileEnhanced job env") auto
  have "retryJob job env jobs = set_error (job_id job) e (set_retry (job_id job) jobs)"
    by (simp add: retryJob_def retry_updates_def conversion_updates_def c apply_updates_Cons
        apply_progress_then_error)
  also have "\<dots> = map (\<lambda>j. if job_id j = job_id job
                       then j\<lparr> status := Error,
                               error := Some (case e of ErrorObject message \<Rightarrow> message
                                                      | OtherValue \<Rightarrow> ''Conversion failed''),
                               progress := 0 \<rparr>
                       else j) jobs"
    by (simp add: set_error_def set_retry_def)
  finally show ?thesis .
qed

text \<open>
  C6. When \<^verbatim>\<open>convertFileEnhanced\<close> fails, what it throws is an \<^verbatim>\<open>Error\<close> object, and the job
  ends with status \<open>Error\<close>, progress 0 and the message of that object as its error, both
  for a file that was dropped and for a job that was retried.
\<close>

theorem converter_failure_stored:
  assumes "snd (convertFileEnhanced job env) = Inl e"
  shows "\<exists>message. e = ErrorObject message
       \<and> ((file_extension file = ''epub'' \<or> file_extension file = ''azw3'')
            \<and> newId \<notin> job_id ` set jobs \<and> job = new_job file newId
            \<longrightarrow> apply_updates (file_updates file newId env) jobs
                  = jobs @ [job\<lparr> status := Error, error := Some message, progress := 0 \<rparr>])
       \<and> retryJob job env jobs
            = map (\<lambda>j. if job_id j = job_id job
                        then j\<lparr> status := Error, error := Some message, progress := 0 \<rparr>
                        else j) jobs"
proof -
  from convertFileEnhanced_throws_Error [OF assms] obtain message where m: "e = ErrorObject message"
    by blast
  have "(file_extension file = ''epub'' \<or> file_extension file = ''azw3'')
            \<and> newId \<notin> job_id ` set jobs \<and> job = new_job file newId
            \<longrightarrow> apply_updates (file_updates file newId env) jobs
                  = jobs @ [job\<lparr> status := Error, error := Some message, progress := 0 \<rparr>]"
    using file_failure_final [of "file" newId jobs env e] assms m by auto
  moreover have "retryJob job env jobs
            = map (\<lambda>j. if job_id j = job_id job
                        then j\<lparr> status := Error, error := Some message, progress := 0 \<rparr>
                        else j) jobs"
    using retry_failure_final [OF assms, of jobs] m by simp
  ultimately show ?thesis using m by blast
qed

theorem converter_failure_stored_witness:
  "snd (convertFileEnhanced (new_job example_file ''j1'') corrupt_env)
     = Inl (ErrorObject ''Conversion failed: corrupt archive'')
 \<and> handleFilesDrop [(example_file, ''j1'', corrupt_env)] []
     = [(new_job example_file ''j1'')\<lparr> status := Error,
          error := Some ''Conversion failed: corrupt archive'', progress := 0 \<rparr>]"
proof -
  have f: "snd (convertFileEnhanced (new_job example_file ''j1'') corrupt_env)
     = Inl (ErrorObject ''Conversion failed: corrupt archive'')"
    by (simp add: corrupt_trace)
  have a: "(file_extension example_file = ''epub'' \<or> file_extension example_file = ''azw3'')
      \<and> ''j1'' \<notin> job_id ` set []"
    by (simp add: example_file_extension)
  from converter_failure_stored [OF f, of example_file "''j1''" "[]"] a f example_file_extension
  show ?thesis by (simp add: handleFilesDrop_def)
qed

end
